theory Spec2Isabelle
  imports Complex_Main
begin

section \<open>The tracker of \<open>Final Project/tracker.py\<close>\<close>

text \<open>
  The embedding follows the Python source function by function. Numbers that are floats in
  the source are reals here: rounding to float32 is not modelled, and no result below
  depends on it. Dictionaries of a detection or a tracklet are objects that the source
  updates in place and shares between the caller's list, the returned list and
  \<open>self.tracks\<close>; they live in a store, and the lists hold references.
  Every \<open>raise\<close> of the source and every failing lookup is a value of \<open>error\<close>.
\<close>

subsection \<open>Data\<close>

datatype error =
    NotImplementedError
  | TypeError
  | IndexError
  | KeyError
  | AssertionError
  | UnboundLocalError
  | ValueError
  | LibraryError

text \<open>Class names: strings in the nuScenes table, integers in the Waymo table.\<close>

datatype cname = Str string | Num int

record kalman =
  kf_x :: "real list"
  kf_P :: "real list list"
  kf_H :: "real list list"

text \<open>
  A detection dictionary. The first four keys are supplied by the caller; the others are
  the keys that \<open>step_centertrack\<close> adds, absent (\<open>None\<close>) until then.
\<close>

record det =
  translation :: "real list"
  velocity :: "real list"
  detection_name :: cname
  detection_score :: real
  ct :: "real list option"
  tracking :: "real list option"
  label_preds :: "nat option"
  tracking_id :: "int option"
  age :: "int option"
  active :: "int option"
  KF :: "kalman option"

type_synonym ref = nat
type_synonym heap = "ref \<Rightarrow> det"

text \<open>
  The attributes of a \<open>PubTracker\<close> object. \<open>score_update\<close> is only ever compared
  with \<open>None\<close>.
\<close>

record PubTracker =
  tracker :: string
  hungarian :: bool
  max_age :: int
  min_hits :: int
  noise :: real
  s_th :: real
  score_update :: "string option"
  det_th :: real
  del_th :: real
  use_vel :: bool
  velocity_error :: "cname \<Rightarrow> real option"
  tracking_names :: "cname list"
  id_count :: int
  tracks :: "ref list"

text \<open>
  The routines of scipy and filterpy that the source calls are parameters.
  \<open>linear_sum_assignment\<close> returns a tuple of two index arrays (rows, columns), or raises.
\<close>

record library =
  linear_sum_assignment :: "real list list \<Rightarrow> error + (nat list \<times> nat list)"
  KalmanFilter :: "nat \<Rightarrow> nat \<Rightarrow> kalman"
  kf_predict :: "real list list \<Rightarrow> kalman \<Rightarrow> error + kalman"
  kf_update :: "real list \<Rightarrow> kalman \<Rightarrow> error + kalman"

subsection \<open>Class tables and construction\<close>

definition NUSCENES_TRACKING_NAMES :: "cname list" where
  "NUSCENES_TRACKING_NAMES =
     [Str ''bicycle'', Str ''bus'', Str ''car'', Str ''motorcycle'', Str ''pedestrian'',
      Str ''trailer'', Str ''truck'', Str ''construction_vehicle'', Str ''barrier'',
      Str ''traffic_cone'']"

definition NUSCENE_CLS_VELOCITY_ERROR :: "cname \<Rightarrow> real option" where
  "NUSCENE_CLS_VELOCITY_ERROR =
     map_of [(Str ''car'', 3), (Str ''truck'', 4), (Str ''bus'', 5.5), (Str ''trailer'', 2),
             (Str ''pedestrian'', 1), (Str ''motorcycle'', 4), (Str ''bicycle'', 2.5),
             (Str ''construction_vehicle'', 1), (Str ''barrier'', 1),
             (Str ''traffic_cone'', 1)]"

definition WAYMO_TRACKING_NAMES :: "cname list" where
  "WAYMO_TRACKING_NAMES = [Num 1, Num 2, Num 4]"

definition WAYMO_CLS_VELOCITY_ERROR :: "cname \<Rightarrow> real option" where
  "WAYMO_CLS_VELOCITY_ERROR = map_of [(Num 1, 2), (Num 2, 0.2), (Num 4, 0.5)]"

datatype dataset = Nuscenes | Waymo

text \<open>
  \<open>__init__\<close> with its keyword arguments; \<open>tracker=None\<close> selects \<open>'PointTracker'\<close>.
  A dataset string other than the two leaves the tables unset and is not modelled.
\<close>

definition init ::
  "bool \<Rightarrow> int \<Rightarrow> real \<Rightarrow> real \<Rightarrow> int \<Rightarrow> string option \<Rightarrow> real \<Rightarrow> real \<Rightarrow> dataset \<Rightarrow> bool
     \<Rightarrow> string option \<Rightarrow> PubTracker" where
  "init hung maxage nse active_th minhits upd deletion_th detection_th ds usevel trk =
     \<lparr> tracker = (case trk of None \<Rightarrow> ''PointTracker'' | Some t \<Rightarrow> t),
       hungarian = hung, max_age = maxage, min_hits = minhits, noise = nse,
       s_th = active_th, score_update = upd, det_th = detection_th, del_th = deletion_th,
       use_vel = usevel,
       velocity_error =
         (case ds of Nuscenes \<Rightarrow> NUSCENE_CLS_VELOCITY_ERROR | Waymo \<Rightarrow> WAYMO_CLS_VELOCITY_ERROR),
       tracking_names =
         (case ds of Nuscenes \<Rightarrow> NUSCENES_TRACKING_NAMES | Waymo \<Rightarrow> WAYMO_TRACKING_NAMES),
       id_count = 0, tracks = [] \<rparr>"

text \<open>The defaults of \<open>__init__\<close>: \<open>PubTracker()\<close>.\<close>

definition default_tracker :: PubTracker where
  "default_tracker = init False 6 0.05 1 1 None 0 0 Nuscenes False None"


subsection \<open>Lookups that can raise\<close>

definition lookup_key :: "'a option \<Rightarrow> error + 'a" where
  "lookup_key v = (case v of None \<Rightarrow> Inl KeyError | Some x \<Rightarrow> Inr x)"

definition item :: "'a list \<Rightarrow> nat \<Rightarrow> error + 'a" where
  "item xs i = (if i < length xs then Inr (xs ! i) else Inl IndexError)"

text \<open>A list comprehension whose element expression can raise: the first failure wins.\<close>

fun mapE :: "('a \<Rightarrow> error + 'b) \<Rightarrow> 'a list \<Rightarrow> error + 'b list" where
  "mapE f [] = Inr []"
| "mapE f (x # xs) =
     (case f x of
        Inl e \<Rightarrow> Inl e
      | Inr y \<Rightarrow> (case mapE f xs of Inl e \<Rightarrow> Inl e | Inr ys \<Rightarrow> Inr (y # ys)))"

subsection \<open>The assignment stage\<close>

text \<open>\<open>greedy_assignment\<close> is a stub in the source: it raises before anything else.\<close>

definition greedy_assignment :: "real list list \<Rightarrow> error + (nat \<times> nat) list" where
  "greedy_assignment dists = Inl NotImplementedError"

text \<open>
  The helper \<open>reshape\<close> of the source turns the tuple of \<open>linear_sum_assignment\<close> into
  index pairs. No function of the source calls it.
\<close>

fun reshape_loop :: "nat list \<Rightarrow> nat list \<Rightarrow> nat list \<Rightarrow> error + (nat \<times> nat) list" where
  "reshape_loop rows cols [] = Inr []"
| "reshape_loop rows cols (i # is) =
     (case item cols i of
        Inl e \<Rightarrow> Inl e
      | Inr c \<Rightarrow> (case reshape_loop rows cols is of
                   Inl e \<Rightarrow> Inl e
                 | Inr ps \<Rightarrow> Inr ((rows ! i, c) # ps)))"

definition reshape :: "nat list \<times> nat list \<Rightarrow> error + (nat \<times> nat) list" where
  "reshape hung = reshape_loop (fst hung) (snd hung) [0 ..< length (fst hung)]"

text \<open>
  \<open>matched_indices\<close> is either a \<open>k \<times> 2\<close> integer array or the tuple that
  \<open>linear_sum_assignment\<close> returned.
\<close>

datatype matched = Array2 "(nat \<times> nat) list" | Tuple "nat list" "nat list"

text \<open>\<open>matched_indices[:, j]\<close>: a column of the array; a tuple cannot be indexed so.\<close>

definition column :: "matched \<Rightarrow> nat \<Rightarrow> error + nat list" where
  "column mi j =
     (case mi of
        Array2 ps \<Rightarrow> Inr (map (\<lambda>p. if j = 0 then fst p else snd p) ps)
      | Tuple rows cols \<Rightarrow> Inl TypeError)"

text \<open>
  \<open>[d for d in range(n) if not (d in matched_indices[:, j])]\<close>: the condition is
  evaluated once per \<open>d\<close>, so an empty range never evaluates it.
\<close>

definition unmatched :: "nat \<Rightarrow> matched \<Rightarrow> nat \<Rightarrow> error + nat list" where
  "unmatched n mi j =
     (if n = 0 then Inr []
      else case column mi j of
             Inl e \<Rightarrow> Inl e
           | Inr c \<Rightarrow> Inr (filter (\<lambda>d. d \<notin> set c) [0 ..< n]))"

text \<open>Iterating \<open>matched_indices\<close>: the rows of the array, or the two members of the tuple.\<close>

definition rows_of :: "matched \<Rightarrow> nat list list" where
  "rows_of mi =
     (case mi of
        Array2 ps \<Rightarrow> map (\<lambda>p. [fst p, snd p]) ps
      | Tuple rows cols \<Rightarrow> [rows, cols])"

text \<open>\<open>dist[m[0], m[1]]\<close>.\<close>

definition dist_at :: "real list list \<Rightarrow> nat list \<Rightarrow> error + real" where
  "dist_at dists m =
     (case item m 0 of
        Inl e \<Rightarrow> Inl e
      | Inr i \<Rightarrow> (case item m 1 of
                   Inl e \<Rightarrow> Inl e
                 | Inr j \<Rightarrow> (case item dists i of
                              Inl e \<Rightarrow> Inl e
                            | Inr row \<Rightarrow> item row j)))"

text \<open>
  The loop of the optimal mode over \<open>matched_indices\<close>: a pair whose cost is above
  \<open>1e16\<close> is dropped and its detection index appended to the unmatched detections.
\<close>

fun filter_matches ::
  "real list list \<Rightarrow> nat list list \<Rightarrow> nat list list \<Rightarrow> nat list
     \<Rightarrow> error + (nat list list \<times> nat list)" where
  "filter_matches dists [] matches um2 = Inr (matches, um2)"
| "filter_matches dists (m # ms) matches um2 =
     (case dist_at dists m of
        Inl e \<Rightarrow> Inl e
      | Inr c \<Rightarrow>
          (if c > 10 ^ 16 then filter_matches dists ms matches (um2 @ [m ! 0])
           else filter_matches dists ms (matches @ [m]) um2))"

text \<open>\<open>np.array(matches).reshape(-1, 2)\<close>: the flat data regrouped in pairs.\<close>

fun pairs :: "nat list \<Rightarrow> error + (nat \<times> nat) list" where
  "pairs [] = Inr []"
| "pairs [a] = Inl ValueError"
| "pairs (a # b # xs) = (case pairs xs of Inl e \<Rightarrow> Inl e | Inr ps \<Rightarrow> Inr ((a, b) # ps))"

text \<open>
  Lines 77 to 90: the unmatched indices of both sides and the final matches, from
  \<open>matched_indices\<close>. \<open>n1\<close> and \<open>n2\<close> are \<open>positions1.shape[0]\<close> and
  \<open>positions2.shape[0]\<close>.
\<close>

definition split_matches ::
  "bool \<Rightarrow> real list list \<Rightarrow> nat \<Rightarrow> nat \<Rightarrow> matched \<Rightarrow> error + (matched \<times> nat list \<times> nat list)" where
  "split_matches hung dists n1 n2 mi =
     (case unmatched n1 mi 1 of
        Inl e \<Rightarrow> Inl e
      | Inr um1 \<Rightarrow>
          (case unmatched n2 mi 0 of
             Inl e \<Rightarrow> Inl e
           | Inr um2 \<Rightarrow>
               (if hung then
                  (case filter_matches dists (rows_of mi) [] um2 of
                     Inl e \<Rightarrow> Inl e
                   | Inr (matches, um2') \<Rightarrow>
                       (case pairs (concat matches) of
                          Inl e \<Rightarrow> Inl e
                        | Inr ps \<Rightarrow> Inr (Array2 ps, um1, um2')))
                else Inr (mi, um1, um2))))"

text \<open>
  An array of positions as a list of points. Every position the caller builds has two
  components when \<open>translation\<close> has at least two; other shapes, which numpy would reject
  or regroup, are an error of the model.
\<close>

definition as_points :: "real list list \<Rightarrow> error + (real \<times> real) list" where
  "as_points rows =
     (if \<forall>r \<in> set rows. length r = 2 then Inr (map (\<lambda>r. (r ! 0, r ! 1)) rows)
      else Inl ValueError)"

definition euclid :: "real \<times> real \<Rightarrow> real \<times> real \<Rightarrow> real" where
  "euclid p q = sqrt ((fst p - fst q) ^ 2 + (snd p - snd q) ^ 2)"

text \<open>
  The gate: a pair is invalid when the distance exceeds the velocity error of the
  detection's class or when the labels differ.
\<close>

definition invalid :: "real \<Rightarrow> real \<Rightarrow> nat \<Rightarrow> nat \<Rightarrow> bool" where
  "invalid d max_diff cat2 cat1 = (d > max_diff \<or> cat2 \<noteq> cat1)"

text \<open>The \<open>N \<times> M\<close> cost matrix: distance, plus \<open>1e18\<close> where the pair is invalid.\<close>

definition cost_matrix ::
  "(real \<times> real) list \<Rightarrow> nat list \<Rightarrow> (real \<times> real) list \<Rightarrow> nat list \<Rightarrow> real list
     \<Rightarrow> real list list" where
  "cost_matrix pts1 cat1 pts2 cat2 max_diff =
     map (\<lambda>n. map (\<lambda>m. let d = euclid (pts1 ! m) (pts2 ! n)
                        in d + (if invalid d (max_diff ! n) (cat2 ! n) (cat1 ! m)
                                then 10 ^ 18 else 0))
                   [0 ..< length pts1])
         [0 ..< length pts2]"

text \<open>\<open>dist[dist > 1e18] = 1e18\<close>.\<close>

definition clamp :: "real list list \<Rightarrow> real list list" where
  "clamp dists = map (map (\<lambda>c. if c > 10 ^ 18 then 10 ^ 18 else c)) dists"

text \<open>
  \<open>comparing_positions\<close> reads the dictionaries and does not change them, so it takes
  their values. The arrays \<open>positions1\<close> and \<open>positions2\<close> have one row per dictionary
  at the only call; other row counts, which numpy would reject or broadcast, are an error
  of the model.
\<close>

definition comparing_positions ::
  "library \<Rightarrow> PubTracker \<Rightarrow> det list \<Rightarrow> det list \<Rightarrow> real list list \<Rightarrow> real list list
     \<Rightarrow> error + (matched \<times> nat list \<times> nat list)" where
  "comparing_positions lib self positions1_data positions2_data positions1 positions2 =
     (let M = length positions1_data; N = length positions2_data in
      case mapE (\<lambda>d. lookup_key (label_preds d)) positions1_data of
        Inl e \<Rightarrow> Inl e
      | Inr positions1_cat \<Rightarrow>
      case mapE (\<lambda>d. lookup_key (label_preds d)) positions2_data of
        Inl e \<Rightarrow> Inl e
      | Inr positions2_cat \<Rightarrow>
      case mapE (\<lambda>b. lookup_key (velocity_error self (detection_name b))) positions2_data of
        Inl e \<Rightarrow> Inl e
      | Inr max_diff \<Rightarrow>
      if length positions1 > 0 then
        (case as_points positions1 of
           Inl e \<Rightarrow> Inl e
         | Inr pts1 \<Rightarrow>
         case as_points positions2 of
           Inl e \<Rightarrow> Inl e
         | Inr pts2 \<Rightarrow>
         if length positions1 \<noteq> M \<or> length positions2 \<noteq> N then Inl ValueError
         else
           let dists = cost_matrix pts1 positions1_cat pts2 positions2_cat max_diff in
           if hungarian self then
             (case linear_sum_assignment lib (clamp dists) of
                Inl e \<Rightarrow> Inl e
              | Inr rc \<Rightarrow>
                  split_matches True (clamp dists) (length positions1) (length positions2)
                    (Tuple (fst rc) (snd rc)))
           else
             (case greedy_assignment dists of
                Inl e \<Rightarrow> Inl e
              | Inr ps \<Rightarrow>
                  split_matches False dists (length positions1) (length positions2)
                    (Array2 ps)))
      else if M \<noteq> 0 then Inl AssertionError
      else split_matches (hungarian self) [] (length positions1) (length positions2)
             (Array2 []))"

subsection \<open>The per-frame entry point: preparing the detections\<close>

text \<open>
  \<open>tracking_names.index(name)\<close>, the first position of \<open>name\<close>; the source calls it
  only after it has checked that \<open>name\<close> is in the list.
\<close>

definition index_of :: "'a list \<Rightarrow> 'a \<Rightarrow> nat" where
  "index_of xs x = length (takeWhile (\<lambda>y. y \<noteq> x) xs)"

text \<open>Lines 169 to 173: the keys added to a detection of a tracked class.\<close>

definition extend_det :: "PubTracker \<Rightarrow> real \<Rightarrow> det \<Rightarrow> det" where
  "extend_det self time_lag d =
     (let d1 = d\<lparr>ct := Some (take 2 (translation d))\<rparr>;
          d2 = (if tracker self = ''PointTracker''
                then d1\<lparr>tracking := Some (map (\<lambda>v. v * (- 1) * time_lag) (take 2 (velocity d1)))\<rparr>
                else d1)
      in d2\<lparr>label_preds := Some (index_of (tracking_names self) (detection_name d2))\<rparr>)"

text \<open>
  Lines 163 to 176: the loop over the caller's list. It returns \<open>temp\<close>, the references
  of the detections of tracked classes, and the store with those dictionaries extended.
\<close>

fun extend_dets :: "PubTracker \<Rightarrow> real \<Rightarrow> ref list \<Rightarrow> heap \<Rightarrow> ref list \<times> heap" where
  "extend_dets self time_lag [] h = ([], h)"
| "extend_dets self time_lag (r # rs) h =
     (if detection_name (h r) \<notin> set (tracking_names self) then extend_dets self time_lag rs h
      else (case extend_dets self time_lag rs (h(r := extend_det self time_lag (h r))) of
              (temp, h') \<Rightarrow> (r # temp, h')))"

subsection \<open>Births\<close>

definition H4 :: "real list list" where
  "H4 = [[1, 0, 0, 0, 0, 0], [0, 1, 0, 0, 0, 0], [0, 0, 1, 0, 0, 0], [0, 0, 0, 1, 0, 0]]"

definition H2 :: "real list list" where
  "H2 = [[1, 0, 0, 0, 0, 0], [0, 1, 0, 0, 0, 0]]"

text \<open>
  Lines 196 to 208, and again 277 to 289: in \<open>'KF'\<close> mode a born track gets a fresh
  filter whose state is the centre, the velocity and two zeros.
\<close>

definition init_KF :: "library \<Rightarrow> PubTracker \<Rightarrow> det \<Rightarrow> error + det" where
  "init_KF lib self track =
     (if tracker self = ''KF'' then
        (let k = (if use_vel self then (KalmanFilter lib 6 4)\<lparr>kf_H := H4\<rparr>
                  else (KalmanFilter lib 6 2)\<lparr>kf_H := H2\<rparr>)
         in case lookup_key (ct track) of
              Inl e \<Rightarrow> Inl e
            | Inr c \<Rightarrow>
                (let k1 = k\<lparr>kf_x := c @ take 2 (velocity track) @ [0, 0]\<rparr>
                 in Inr (track\<lparr>KF := Some (k1\<lparr>kf_P := map (map (\<lambda>v. v * 10)) (kf_P k1)\<rparr>)\<rparr>)))
      else Inr track)"

text \<open>Lines 184 to 209: with no tracklet yet, every detection of \<open>temp\<close> is born.\<close>

fun first_frame ::
  "library \<Rightarrow> ref list \<Rightarrow> PubTracker \<Rightarrow> heap \<Rightarrow> ref list
     \<Rightarrow> error + (ref list \<times> PubTracker \<times> heap)" where
  "first_frame lib [] self h ret = Inr (ret, self, h)"
| "first_frame lib (r # rs) self h ret =
     (let self1 = self\<lparr>id_count := id_count self + 1\<rparr>;
          track = (h r)\<lparr>tracking_id := Some (id_count self1), age := Some 1,
                        active := Some (min_hits self1)\<rparr>
      in case init_KF lib self1 track of
           Inl e \<Rightarrow> Inl e
         | Inr track' \<Rightarrow> first_frame lib rs self1 (h(r := track')) (ret @ [r]))"

subsection \<open>Predicted positions\<close>

text \<open>The sum of two one-dimensional arrays; an array of length one is broadcast.\<close>

definition np_add :: "real list \<Rightarrow> real list \<Rightarrow> error + real list" where
  "np_add xs ys =
     (if length xs = length ys then Inr (map (\<lambda>p. fst p + snd p) (zip xs ys))
      else if length xs = 1 then Inr (map (\<lambda>y. xs ! 0 + y) ys)
      else if length ys = 1 then Inr (map (\<lambda>x. x + ys ! 0) xs)
      else Inl ValueError)"

definition ct_plus_tracking :: "det \<Rightarrow> error + real list" where
  "ct_plus_tracking d =
     (case lookup_key (ct d) of
        Inl e \<Rightarrow> Inl e
      | Inr c \<Rightarrow> (case lookup_key (tracking d) of Inl e \<Rightarrow> Inl e | Inr t \<Rightarrow> np_add c t))"

text \<open>The transition matrix that \<open>predict\<close> is given (lines 237 to 242).\<close>

definition trans_F :: "real \<Rightarrow> real list list" where
  "trans_F time_lag =
     [[1, 0, time_lag, 0, time_lag * time_lag, 0],
      [0, 1, 0, time_lag, 0, time_lag * time_lag],
      [0, 0, 1, 0, time_lag, 0],
      [0, 0, 0, 1, 0, time_lag],
      [0, 0, 0, 0, 1, 0],
      [0, 0, 0, 0, 0, 1]]"

text \<open>Lines 235 to 243: every tracklet's filter is advanced in place.\<close>

fun predict_tracks ::
  "library \<Rightarrow> real \<Rightarrow> ref list \<Rightarrow> heap \<Rightarrow> real list list \<Rightarrow> error + (real list list \<times> heap)" where
  "predict_tracks lib time_lag [] h trks = Inr (trks, h)"
| "predict_tracks lib time_lag (r # rs) h trks =
     (case lookup_key (KF (h r)) of
        Inl e \<Rightarrow> Inl e
      | Inr k \<Rightarrow>
          (case kf_predict lib (trans_F time_lag) k of
             Inl e \<Rightarrow> Inl e
           | Inr k' \<Rightarrow>
               predict_tracks lib time_lag rs (h(r := (h r)\<lparr>KF := Some k'\<rparr>))
                 (trks @ [take 2 (kf_x k')])))"

text \<open>
  Lines 214 to 245: the arrays \<open>dets\<close> and \<open>tracks\<close>. In a mode that is neither
  \<open>'PointTracker'\<close> nor \<open>'KF'\<close> the two names are unbound when line 248 reads them.
\<close>

definition predicted ::
  "library \<Rightarrow> PubTracker \<Rightarrow> ref list \<Rightarrow> real \<Rightarrow> heap
     \<Rightarrow> error + (real list list \<times> real list list \<times> heap)" where
  "predicted lib self results time_lag h =
     (if tracker self = ''PointTracker'' then
        (case item results 0 of
           Inl e \<Rightarrow> Inl e
         | Inr r0 \<Rightarrow>
             (case (if tracking (h r0) \<noteq> None then mapE (\<lambda>r. ct_plus_tracking (h r)) results
                    else mapE (\<lambda>r. lookup_key (ct (h r))) results) of
                Inl e \<Rightarrow> Inl e
              | Inr dets \<Rightarrow>
                  (case mapE (\<lambda>r. lookup_key (ct (h r))) (tracks self) of
                     Inl e \<Rightarrow> Inl e
                   | Inr trks \<Rightarrow> Inr (dets, trks, h))))
      else if tracker self = ''KF'' then
        (case mapE (\<lambda>r. lookup_key (ct (h r))) results of
           Inl e \<Rightarrow> Inl e
         | Inr dets \<Rightarrow>
             (case predict_tracks lib time_lag (tracks self) h [] of
                Inl e \<Rightarrow> Inl e
              | Inr (trks, h') \<Rightarrow> Inr (dets, trks, h')))
      else Inl UnboundLocalError)"

subsection \<open>Matched, born and stale tracks\<close>

definition set_item :: "'a list \<Rightarrow> nat \<Rightarrow> 'a \<Rightarrow> error + 'a list" where
  "set_item xs i v = (if i < length xs then Inr (xs[i := v]) else Inl IndexError)"

text \<open>
  Lines 264 to 267, and again 320 to 323: translation and velocity are overwritten with
  the first four components of the filter state.
\<close>

definition write_back :: "det \<Rightarrow> error + det" where
  "write_back track =
     (case lookup_key (KF track) of
        Inl e \<Rightarrow> Inl e
      | Inr k \<Rightarrow>
      case item (kf_x k) 0 of
        Inl e \<Rightarrow> Inl e
      | Inr x0 \<Rightarrow>
      case set_item (translation track) 0 x0 of
        Inl e \<Rightarrow> Inl e
      | Inr t0 \<Rightarrow>
      case item (kf_x k) 1 of
        Inl e \<Rightarrow> Inl e
      | Inr x1 \<Rightarrow>
      case set_item t0 1 x1 of
        Inl e \<Rightarrow> Inl e
      | Inr t1 \<Rightarrow>
      case item (kf_x k) 2 of
        Inl e \<Rightarrow> Inl e
      | Inr x2 \<Rightarrow>
      case set_item (velocity track) 0 x2 of
        Inl e \<Rightarrow> Inl e
      | Inr v0 \<Rightarrow>
      case item (kf_x k) 3 of
        Inl e \<Rightarrow> Inl e
      | Inr x3 \<Rightarrow>
      case set_item v0 1 x3 of
        Inl e \<Rightarrow> Inl e
      | Inr v1 \<Rightarrow> Inr (track\<lparr>translation := t1, velocity := v1\<rparr>))"

text \<open>
  Lines 258 to 267: the matched detection \<open>r\<close> takes over the filter of the tracklet
  \<open>t\<close>, which is updated with the observation; both dictionaries hold the same filter
  object, so both see the update.
\<close>

definition kf_match :: "library \<Rightarrow> PubTracker \<Rightarrow> ref \<Rightarrow> ref \<Rightarrow> heap \<Rightarrow> error + heap" where
  "kf_match lib self r t h =
     (case lookup_key (KF (h t)) of
        Inl e \<Rightarrow> Inl e
      | Inr k \<Rightarrow>
      let h1 = h(r := (h r)\<lparr>KF := Some k\<rparr>) in
      case lookup_key (ct (h1 r)) of
        Inl e \<Rightarrow> Inl e
      | Inr c \<Rightarrow>
      case kf_update lib (if use_vel self then c @ take 2 (velocity (h1 r)) else c) k of
        Inl e \<Rightarrow> Inl e
      | Inr k' \<Rightarrow>
      let h2 = h1(t := (h1 t)\<lparr>KF := Some k'\<rparr>);
          h3 = h2(r := (h2 r)\<lparr>KF := Some k'\<rparr>) in
      case write_back (h3 r) of
        Inl e \<Rightarrow> Inl e
      | Inr track \<Rightarrow> Inr (h3(r := track)))"

text \<open>
  Lines 252 to 268: for every row \<open>m\<close> of the matches, the detection \<open>results[m[0]]\<close>
  takes the identity of the tracklet \<open>self.tracks[m[1]]\<close>, age 1 and its activity plus
  one.
\<close>

fun add_matches ::
  "library \<Rightarrow> PubTracker \<Rightarrow> ref list \<Rightarrow> nat list list \<Rightarrow> heap \<Rightarrow> ref list
     \<Rightarrow> error + (ref list \<times> heap)" where
  "add_matches lib self results [] h ret = Inr (ret, h)"
| "add_matches lib self results (m # ms) h ret =
     (case item m 0 of
        Inl e \<Rightarrow> Inl e
      | Inr i \<Rightarrow>
      case item results i of
        Inl e \<Rightarrow> Inl e
      | Inr r \<Rightarrow>
      case item m 1 of
        Inl e \<Rightarrow> Inl e
      | Inr j \<Rightarrow>
      case item (tracks self) j of
        Inl e \<Rightarrow> Inl e
      | Inr t \<Rightarrow>
      case lookup_key (tracking_id (h t)) of
        Inl e \<Rightarrow> Inl e
      | Inr tid \<Rightarrow>
      let h1 = h(r := (h r)\<lparr>tracking_id := Some tid, age := Some 1\<rparr>) in
      case lookup_key (active (h1 t)) of
        Inl e \<Rightarrow> Inl e
      | Inr a \<Rightarrow>
      let h2 = h1(r := (h1 r)\<lparr>active := Some (a + 1)\<rparr>) in
      case (if tracker self = ''KF'' then kf_match lib self r t h2 else Inr h2) of
        Inl e \<Rightarrow> Inl e
      | Inr h3 \<Rightarrow> add_matches lib self results ms h3 (ret @ [r]))"

text \<open>
  Lines 271 to 294: every unmatched detection is born with the next identity, age 1, and
  activity 1 when its score is above the detection threshold, 0 otherwise.
\<close>

fun add_births ::
  "library \<Rightarrow> ref list \<Rightarrow> nat list \<Rightarrow> PubTracker \<Rightarrow> heap \<Rightarrow> ref list
     \<Rightarrow> error + (ref list \<times> PubTracker \<times> heap)" where
  "add_births lib results [] self h ret = Inr (ret, self, h)"
| "add_births lib results (i # is) self h ret =
     (case item results i of
        Inl e \<Rightarrow> Inl e
      | Inr r \<Rightarrow>
      let self1 = self\<lparr>id_count := id_count self + 1\<rparr>;
          track = (h r)\<lparr>tracking_id := Some (id_count self1), age := Some 1, active := Some 1\<rparr>
      in
      case init_KF lib self1 track of
        Inl e \<Rightarrow> Inl e
      | Inr track1 \<Rightarrow>
      let track2 = track1\<lparr>active := Some (if detection_score track1 > det_th self1 then 1 else 0)\<rparr>
      in add_births lib results is self1 (h(r := track2)) (ret @ [r]))"

text \<open>
  Lines 314 to 323: an unmatched tracklet that is kept is moved forward, by its stored
  offset or by its filter state.
\<close>

definition move_forward :: "det \<Rightarrow> error + det" where
  "move_forward track =
     (case lookup_key (ct track) of
        Inl e \<Rightarrow> Inl e
      | Inr c \<Rightarrow>
          (case tracking track of
             Some trk \<Rightarrow>
               (case np_add c (map (\<lambda>v. v * (- 1)) trk) of
                  Inl e \<Rightarrow> Inl e
                | Inr c' \<Rightarrow>
                    Inr (track\<lparr>ct := Some c', translation := c' @ drop 2 (translation track)\<rparr>))
           | None \<Rightarrow> (if KF track \<noteq> None then write_back track else Inr track)))"

text \<open>
  Lines 298 to 324: an unmatched tracklet loses \<open>noise\<close> of its score when the score
  update is on; it is kept, one frame older, when its age is below \<open>max_age\<close> and its
  score above the deletion threshold, and dropped otherwise.
\<close>

fun age_tracks ::
  "PubTracker \<Rightarrow> nat list \<Rightarrow> heap \<Rightarrow> ref list \<Rightarrow> error + (ref list \<times> heap)" where
  "age_tracks self [] h ret = Inr (ret, h)"
| "age_tracks self (i # is) h ret =
     (case item (tracks self) i of
        Inl e \<Rightarrow> Inl e
      | Inr t \<Rightarrow>
      let track = (if score_update self \<noteq> None
                   then (h t)\<lparr>detection_score := detection_score (h t) - noise self\<rparr>
                   else h t)
      in
      case lookup_key (age track) of
        Inl e \<Rightarrow> Inl e
      | Inr a \<Rightarrow>
      if a < max_age self \<and> detection_score track > del_th self then
        (let track1 = track\<lparr>age := Some (a + 1)\<rparr> in
         case (if detection_score track1 > s_th self
               then (case lookup_key (active track1) of
                       Inl e \<Rightarrow> Inl e
                     | Inr ac \<Rightarrow> Inr (track1\<lparr>active := Some (ac + 1)\<rparr>))
               else Inr (track1\<lparr>active := Some 0\<rparr>)) of
           Inl e \<Rightarrow> Inl e
         | Inr track2 \<Rightarrow>
             (case move_forward track2 of
                Inl e \<Rightarrow> Inl e
              | Inr track3 \<Rightarrow> age_tracks self is (h(t := track3)) (ret @ [t])))
      else age_tracks self is (h(t := track)) ret)"

text \<open>
  Lines 250 to 327 as a function of the triple that the assignment stage returned: the
  three loops in turn, then \<open>self.tracks = ret\<close>.
\<close>

definition update_tracks ::
  "library \<Rightarrow> PubTracker \<Rightarrow> heap \<Rightarrow> ref list \<Rightarrow> matched \<Rightarrow> nat list \<Rightarrow> nat list
     \<Rightarrow> error + (ref list \<times> PubTracker \<times> heap)" where
  "update_tracks lib self h results matches unmatched_trk unmatched_det =
     (case add_matches lib self results (rows_of matches) h [] of
        Inl e \<Rightarrow> Inl e
      | Inr (ret1, h1) \<Rightarrow>
      case add_births lib results unmatched_det self h1 ret1 of
        Inl e \<Rightarrow> Inl e
      | Inr (ret2, self2, h2) \<Rightarrow>
      case age_tracks self2 unmatched_trk h2 ret2 of
        Inl e \<Rightarrow> Inl e
      | Inr (ret3, h3) \<Rightarrow> Inr (ret3, self2\<lparr>tracks := ret3\<rparr>, h3))"

subsection \<open>\<open>step_centertrack\<close>\<close>

text \<open>
  The result of a call that returns is the returned list, the tracker after the call and
  the store after the call; the caller sees its own dictionaries in that store.
\<close>

definition step_centertrack ::
  "library \<Rightarrow> PubTracker \<Rightarrow> heap \<Rightarrow> ref list \<Rightarrow> real
     \<Rightarrow> error + (ref list \<times> PubTracker \<times> heap)" where
  "step_centertrack lib self h results time_lag =
     (if length results = 0 then Inr ([], self\<lparr>tracks := []\<rparr>, h)
      else
        (case extend_dets self time_lag results h of
           (temp, h1) \<Rightarrow>
             if length (tracks self) = 0 then
               (case first_frame lib temp self h1 [] of
                  Inl e \<Rightarrow> Inl e
                | Inr (ret, self1, h2) \<Rightarrow> Inr (ret, self1\<lparr>tracks := ret\<rparr>, h2))
             else
               (case predicted lib self temp time_lag h1 of
                  Inl e \<Rightarrow> Inl e
                | Inr (dets, trks, h2) \<Rightarrow>
                    (case comparing_positions lib self (map h2 (tracks self)) (map h2 temp)
                            trks dets of
                       Inl e \<Rightarrow> Inl e
                     | Inr (matches, unmatched_trk, unmatched_det) \<Rightarrow>
                         update_tracks lib self h2 temp matches unmatched_trk unmatched_det))))"

subsection \<open>A session, and concrete inputs\<close>




text \<open>A library whose assignment routine pairs row 0 with column 0, and one that raises.\<close>

definition lib0 :: library where
  "lib0 = \<lparr> linear_sum_assignment = (\<lambda>c. Inr ([0], [0])),
            KalmanFilter = (\<lambda>n m. \<lparr> kf_x = replicate n 0, kf_P = replicate n (replicate n 1),
                                     kf_H = replicate m (replicate n 0) \<rparr>),
            kf_predict = (\<lambda>F k. Inr k),
            kf_update = (\<lambda>z k. Inr k) \<rparr>"

definition lib_raising :: library where
  "lib_raising = lib0\<lparr>linear_sum_assignment := (\<lambda>c. Inl LibraryError)\<rparr>"

text \<open>A detection as a caller supplies it: only the four keys.\<close>

definition detection :: "cname \<Rightarrow> real \<Rightarrow> real \<Rightarrow> real \<Rightarrow> det" where
  "detection name x y score =
     \<lparr> translation = [x, y, 0], velocity = [0, 0], detection_name = name,
       detection_score = score, ct = None, tracking = None, label_preds = None,
       tracking_id = None, age = None, active = None, KF = None \<rparr>"

text \<open>
  A store: reference 1 holds a detection of a class that is not tracked, every other
  reference \<open>r\<close> a car at \<open>(r, 0)\<close>.
\<close>

definition h0 :: heap where
  "h0 = (\<lambda>r. if r = 1 then detection (Str ''animal'') 5 5 (9 / 10)
              else detection (Str ''car'') (real r) 0 (9 / 10))"

text \<open>
  What the first frame makes of a car of \<open>h0\<close> in the default mode: the keys of lines
  169 to 173 and 189 to 191, with identity \<open>i\<close>.
\<close>

definition born :: "det \<Rightarrow> int \<Rightarrow> det" where
  "born d i = d\<lparr>ct := Some (take 2 (translation d)), tracking := Some [0, 0],
               label_preds := Some 2, tracking_id := Some i, age := Some 1, active := Some 1\<rparr>"

text \<open>The default tracker and the store after a first frame that holds the car 0.\<close>

definition after_first_frame :: PubTracker where
  "after_first_frame = default_tracker\<lparr>id_count := 1, tracks := [0]\<rparr>"

definition heap_after_first_frame :: heap where
  "heap_after_first_frame = h0(0 := born (h0 0) 1)"

text \<open>The same in \<open>'KF'\<close> mode.\<close>

definition kf_tracker :: PubTracker where
  "kf_tracker = init False 6 0.05 1 1 None 0 0 Nuscenes False (Some ''KF'')"

definition kf_after_first_frame :: PubTracker where
  "kf_after_first_frame = kf_tracker\<lparr>id_count := 1, tracks := [0]\<rparr>"

definition kf_heap_after_first_frame :: heap where
  "kf_heap_after_first_frame =
     h0(0 := (h0 0)\<lparr>ct := Some [0, 0], label_preds := Some 2, tracking_id := Some 1,
                     age := Some 1, active := Some 1,
                     KF := Some \<lparr> kf_x = [0, 0, 0, 0, 0, 0],
                                  kf_P = replicate 6 (replicate 6 10), kf_H = H2 \<rparr>\<rparr>)"



text \<open>A dictionary keeps its identity, age, activity, score and class.\<close>

definition kept :: "det \<Rightarrow> det \<Rightarrow> bool" where
  "kept d d' = (tracking_id d' = tracking_id d \<and> age d' = age d \<and> active d' = active d \<and>
                detection_score d' = detection_score d \<and> detection_name d' = detection_name d)"

text \<open>
  The score that line 306 compares with the deletion threshold: the score of the
  tracklet, less \<open>noise\<close> when the score update is on.
\<close>

definition decayed :: "PubTracker \<Rightarrow> det \<Rightarrow> real" where
  "decayed self d =
     (if score_update self \<noteq> None then detection_score d - noise self else detection_score d)"

text \<open>
  A second frame for the tracker after the first: the car 2, prepared by lines 169 to 173.
  In \<open>stale_heap\<close> the live track 0 has reached age 6, the default \<open>max_age\<close>.
\<close>

definition second_frame_heap :: heap where
  "second_frame_heap = heap_after_first_frame(2 := extend_det after_first_frame (1 / 2) (h0 2))"

definition stale_heap :: heap where
  "stale_heap = second_frame_heap(0 := (born (h0 0) 1)\<lparr>age := Some 6\<rparr>)"

section \<open>The assignment stage raises whenever there is a prior track\<close>

lemma unmatched_Tuple: "0 < n \<Longrightarrow> unmatched n (Tuple r c) j = Inl TypeError"
  by (simp add: unmatched_def column_def)

lemma split_matches_Tuple:
  "0 < n1 \<Longrightarrow> split_matches hung dists n1 n2 (Tuple r c) = Inl TypeError"
  by (simp add: split_matches_def unmatched_Tuple)






text \<open>
  C4. With one prior track and one detection, both cars,
  \<open>comparing_positions\<close> does not return: in greedy mode \<open>greedy_assignment\<close> raises
  \<open>NotImplementedError\<close>; in optimal mode line 77 indexes the tuple of
  \<open>linear_sum_assignment\<close> with \<open>[:, 1]\<close> and raises \<open>TypeError\<close>.
\<close>

theorem comparing_positions_not_total:
  "comparing_positions lib default_tracker
     [extend_det default_tracker (1 / 2) (h0 0)] [extend_det default_tracker (1 / 2) (h0 2)]
     [[0, 0]] [[2, 0]] = Inl NotImplementedError \<and>
   comparing_positions lib0 (default_tracker\<lparr>hungarian := True\<rparr>)
     [extend_det default_tracker (1 / 2) (h0 0)] [extend_det default_tracker (1 / 2) (h0 2)]
     [[0, 0]] [[2, 0]] = Inl TypeError"
  by (simp add: comparing_positions_def extend_det_def default_tracker_def init_def h0_def
        detection_def NUSCENES_TRACKING_NAMES_def NUSCENE_CLS_VELOCITY_ERROR_def index_of_def
        lookup_key_def as_points_def greedy_assignment_def lib0_def Let_def split_matches_Tuple)

theorem comparing_positions_not_total_witness:
  "isl (comparing_positions lib0 default_tracker
          [extend_det default_tracker (1 / 2) (h0 0)] [extend_det default_tracker (1 / 2) (h0 2)]
          [[0, 0]] [[2, 0]]) \<and>
   isl (comparing_positions lib0 (default_tracker\<lparr>hungarian := True\<rparr>)
          [extend_det default_tracker (1 / 2) (h0 0)] [extend_det default_tracker (1 / 2) (h0 2)]
          [[0, 0]] [[2, 0]])"
  using comparing_positions_not_total [of lib0] by simp





text \<open>
  Lines 77 to 90 on an index-pair array, which no call of the source produces for them:
  the helper \<open>reshape\<close> would give the pairs; a pair within the gate is kept; for a pair
  at the sentinel cost the loop of the optimal mode appends the detection index to the
  unmatched detections, and the track index is then in neither list.
\<close>

lemma reshape_example: "reshape ([0, 1], [1, 0]) = Inr [(0, 1), (1, 0)]"
  by (simp add: reshape_def item_def upt_rec)

lemma kept_pair:
  "split_matches True [[1]] 1 1 (Array2 [(0, 0)]) = Inr (Array2 [(0, 0)], [], [])"
  by (simp add: split_matches_def unmatched_def column_def rows_of_def dist_at_def item_def)

lemma discarded_pair_loses_its_track:
  "split_matches True [[10 ^ 18]] 1 1 (Array2 [(0, 0)]) = Inr (Array2 [], [], [0])"
  by (simp add: split_matches_def unmatched_def column_def rows_of_def dist_at_def item_def)

section \<open>When \<open>step_centertrack\<close> returns\<close>








lemma init_KF_fields:
  "init_KF lib self track = Inr track' \<Longrightarrow> track' = track\<lparr>KF := KF track'\<rparr>"
  by (auto simp: init_KF_def Let_def split: if_splits sum.splits)








lemmas ev = step_centertrack_def extend_det_def default_tracker_def init_def h0_def
  detection_def NUSCENES_TRACKING_NAMES_def NUSCENE_CLS_VELOCITY_ERROR_def index_of_def
  init_KF_def lookup_key_def item_def predicted_def Let_def born_def after_first_frame_def
  heap_after_first_frame_def kf_tracker_def kf_after_first_frame_def
  kf_heap_after_first_frame_def lib0_def lib_raising_def numeral_2_eq_2


lemma kf_first_frame_example:
  "step_centertrack lib0 kf_tracker h0 [0] (1 / 2)
     = Inr ([0], kf_after_first_frame, kf_heap_after_first_frame)"
  by (simp add: ev)

text \<open>
  C1. After a first frame with one car, a frame whose only detection is of a class that
  is not tracked does not clear the tracks: line 217 reads \<open>results[0]\<close> of the
  filtered, empty list and raises \<open>IndexError\<close>.
\<close>

theorem untracked_frame_raises:
  "step_centertrack lib default_tracker h0 [0] (1 / 2)
     = Inr ([0], after_first_frame, heap_after_first_frame) \<and>
   tracks after_first_frame = [0] \<and>
   detection_name (heap_after_first_frame 1) \<notin> set (tracking_names after_first_frame) \<and>
   step_centertrack lib after_first_frame heap_after_first_frame [1] (1 / 2) = Inl IndexError"
  by (simp add: ev)

theorem untracked_frame_raises_witness:
  "isl (step_centertrack lib0 after_first_frame heap_after_first_frame [1] (1 / 2))"
  using untracked_frame_raises [of lib0] by simp

text \<open>
  C8. A frame with prior tracks and no detection of a tracked class (\<open>N = 0\<close>) is an
  error, and in \<open>'KF'\<close> mode the solving routine is invoked on it: the greedy stub
  raises, and in optimal mode an exception of \<open>linear_sum_assignment\<close> comes through,
  or line 77 raises on its tuple.
\<close>

theorem degenerate_frame_invokes_solver:
  "step_centertrack lib0 kf_tracker h0 [0] (1 / 2)
     = Inr ([0], kf_after_first_frame, kf_heap_after_first_frame) \<and>
   step_centertrack lib0 kf_after_first_frame kf_heap_after_first_frame [1] (1 / 2)
     = Inl NotImplementedError \<and>
   step_centertrack lib_raising (kf_after_first_frame\<lparr>hungarian := True\<rparr>)
       kf_heap_after_first_frame [1] (1 / 2)
     = Inl LibraryError \<and>
   step_centertrack lib0 (kf_after_first_frame\<lparr>hungarian := True\<rparr>)
       kf_heap_after_first_frame [1] (1 / 2)
     = Inl TypeError \<and>
   comparing_positions lib0 default_tracker [heap_after_first_frame 0] [] [[0, 0]] []
     = Inl NotImplementedError"
  by (simp add: ev comparing_positions_def as_points_def greedy_assignment_def
        split_matches_Tuple)

theorem degenerate_frame_invokes_solver_witness:
  "isl (step_centertrack lib0 kf_after_first_frame kf_heap_after_first_frame [1] (1 / 2)) \<and>
   isl (comparing_positions lib0 default_tracker [heap_after_first_frame 0] [] [[0, 0]] [])"
  using degenerate_frame_invokes_solver by simp








section \<open>Identities in a session\<close>






section \<open>The three loops over the matching\<close>

lemma kept_refl: "kept d d" by (simp add: kept_def)

lemma kept_trans: "kept a b \<Longrightarrow> kept b c \<Longrightarrow> kept a c" by (simp add: kept_def)

lemma write_back_kept: "write_back track = Inr track' \<Longrightarrow> kept track track'"
  by (auto simp: write_back_def kept_def split: sum.splits)

lemma move_forward_kept: "move_forward track = Inr track' \<Longrightarrow> kept track track'"
  by (auto simp: move_forward_def kept_def split: sum.splits option.splits if_splits
           dest!: write_back_kept)

lemma kf_match_kept: "kf_match lib self r t h = Inr h' \<Longrightarrow> kept (h q) (h' q)"
  by (auto simp: kf_match_def Let_def kept_def split: sum.splits dest!: write_back_kept)

lemma add_matches_step:
  assumes "add_matches lib self results (m # ms) h ret = Inr res"
  obtains r h3 where
    "r \<in> set results"
    "\<forall>q. q \<noteq> r \<longrightarrow> kept (h q) (h3 q)"
    "age (h3 r) = Some 1"
    "\<forall>q. detection_score (h3 q) = detection_score (h q)"
    "add_matches lib self results ms h3 (ret @ [r]) = Inr res"
proof -
  from assms obtain i j r t tid a h3 where
    i: "item m 0 = Inr i" and r: "item results i = Inr r" and "item m 1 = Inr j"
    and "item (tracks self) j = Inr t" and "tracking_id (h t) = Some tid"
    and "active ((h(r := (h r)\<lparr>tracking_id := Some tid, age := Some 1\<rparr>)) t) = Some a"
    and h3: "(if tracker self = ''KF''
      then kf_match lib self r t (h(r := (h r)\<lparr>tracking_id := Some tid, age := Some 1, active := Some (a + 1)\<rparr>))
      else Inr (h(r := (h r)\<lparr>tracking_id := Some tid, age := Some 1, active := Some (a + 1)\<rparr>))) = Inr h3"
    and rest: "add_matches lib self results ms h3 (ret @ [r]) = Inr res"
    by (auto simp: Let_def lookup_key_def split: sum.splits option.splits)
  let ?h2 = "h(r := (h r)\<lparr>tracking_id := Some tid, age := Some 1, active := Some (a + 1)\<rparr>)"
  have k: "kept (?h2 q) (h3 q)" for q
    using h3 by (auto split: if_splits intro: kept_refl dest: kf_match_kept)
  have 1: "r \<in> set results" using r by (auto simp: item_def split: if_splits)
  have 2: "\<forall>q. q \<noteq> r \<longrightarrow> kept (h q) (h3 q)" using k by (metis fun_upd_other)
  have 3: "age (h3 r) = Some 1" using k [of r] by (simp add: kept_def)
  have 4: "\<forall>q. detection_score (h3 q) = detection_score (h q)"
  proof
    fix q show "detection_score (h3 q) = detection_score (h q)"
      using k [of q] by (cases "q = r") (simp_all add: kept_def)
  qed
  from that [OF 1 2 3 4 rest] show thesis .
qed

lemma add_matches_facts:
  "add_matches lib self results ms h ret0 = Inr (ret1, h1) \<Longrightarrow>
     (\<exists>new. ret1 = ret0 @ new \<and> set new \<subseteq> set results \<and> (\<forall>q \<in> set new. age (h1 q) = Some 1)) \<and>
     (\<forall>q. detection_score (h1 q) = detection_score (h q)) \<and>
     (\<forall>q. q \<notin> set results \<longrightarrow> kept (h q) (h1 q)) \<and>
     (\<forall>q. age (h1 q) = age (h q) \<or> age (h1 q) = Some 1)"
proof (induction ms arbitrary: h ret0)
  case Nil
  then show ?case by (simp add: kept_refl)
next
  case (Cons m ms)
  from Cons.prems obtain r h3 where
    r: "r \<in> set results" and o: "\<forall>q. q \<noteq> r \<longrightarrow> kept (h q) (h3 q)" and a: "age (h3 r) = Some 1"
    and s: "\<forall>q. detection_score (h3 q) = detection_score (h q)"
    and rest: "add_matches lib self results ms h3 (ret0 @ [r]) = Inr (ret1, h1)"
    by (rule add_matches_step)
  note ih = Cons.IH [OF rest]
  from ih obtain new where n: "ret1 = (ret0 @ [r]) @ new" "set new \<subseteq> set results"
    "\<forall>q \<in> set new. age (h1 q) = Some 1" by blast
  have ar: "age (h1 r) = Some 1" using ih a by metis
  have 1: "\<exists>new'. ret1 = ret0 @ new' \<and> set new' \<subseteq> set results \<and> (\<forall>q \<in> set new'. age (h1 q) = Some 1)"
    using n r ar by (intro exI [of _ "r # new"]) auto
  have 2: "\<forall>q. detection_score (h1 q) = detection_score (h q)" using ih s by simp
  have 3: "\<forall>q. q \<notin> set results \<longrightarrow> kept (h q) (h1 q)"
    using ih o r by (metis kept_trans)
  have 4: "\<forall>q. age (h1 q) = age (h q) \<or> age (h1 q) = Some 1"
  proof
    fix q
    show "age (h1 q) = age (h q) \<or> age (h1 q) = Some 1"
    proof (cases "q = r")
      case True with ar show ?thesis by simp
    next
      case False
      with o have "age (h3 q) = age (h q)" by (simp add: kept_def)
      with ih show ?thesis by metis
    qed
  qed
  from 1 2 3 4 show ?case by blast
qed


lemma add_births_step:
  assumes "add_births lib results (i # is) self h ret = Inr res"
  obtains k where
    "i < length results"
    "add_births lib results is (self\<lparr>id_count := id_count self + 1\<rparr>)
       (h(results ! i := (h (results ! i))\<lparr>tracking_id := Some (id_count self + 1), age := Some 1,
            active := Some (if detection_score (h (results ! i)) > det_th self then 1 else 0),
            KF := k\<rparr>))
       (ret @ [results ! i]) = Inr res"
proof -
  let ?r = "results ! i"
  let ?self1 = "self\<lparr>id_count := id_count self + 1\<rparr>"
  let ?track = "(h ?r)\<lparr>tracking_id := Some (id_count ?self1), age := Some 1, active := Some 1\<rparr>"
  from assms have i: "i < length results" and ir: "item results i = Inr ?r"
    by (auto simp: item_def split: if_splits)
  from assms ir obtain track1 where k: "init_KF lib ?self1 ?track = Inr track1"
    and rest: "add_births lib results is ?self1
        (h(?r := track1\<lparr>active := Some (if detection_score track1 > det_th ?self1 then 1 else 0)\<rparr>))
        (ret @ [?r]) = Inr res"
    by (auto simp: Let_def split: sum.splits)
  from init_KF_fields [OF k] have t1: "track1 = ?track\<lparr>KF := KF track1\<rparr>" .
  have "track1\<lparr>active := Some (if detection_score track1 > det_th ?self1 then 1 else 0)\<rparr>
      = (h ?r)\<lparr>tracking_id := Some (id_count self + 1), age := Some 1,
            active := Some (if detection_score (h ?r) > det_th self then 1 else 0),
            KF := KF track1\<rparr>"
    by (subst (1 2) t1) simp
  with rest i that show thesis by simp
qed

lemma add_births_facts:
  "add_births lib results is self h ret0 = Inr (ret2, self2, h2) \<Longrightarrow>
     ret2 = ret0 @ map (\<lambda>i. results ! i) is \<and>
     (\<forall>i \<in> set is. i < length results) \<and>
     self2 = self\<lparr>id_count := id_count self + int (length is)\<rparr> \<and>
     (\<forall>q. q \<notin> (\<lambda>i. results ! i) ` set is \<longrightarrow> h2 q = h q) \<and>
     (\<forall>q. detection_score (h2 q) = detection_score (h q)) \<and>
     (\<forall>q \<in> (\<lambda>i. results ! i) ` set is. age (h2 q) = Some 1) \<and>
     (distinct (map (\<lambda>i. results ! i) is) \<longrightarrow>
        (\<forall>k < length is.
           tracking_id (h2 (results ! (is ! k))) = Some (id_count self + int k + 1) \<and>
           active (h2 (results ! (is ! k)))
             = Some (if detection_score (h (results ! (is ! k))) > det_th self then 1 else 0)))"
proof (induction "is" arbitrary: self h ret0)
  case Nil
  then show ?case by simp
next
  case (Cons i "is")
  let ?r = "results ! i"
  let ?self1 = "self\<lparr>id_count := id_count self + 1\<rparr>"
  from Cons.prems obtain k where i: "i < length results"
    and rest: "add_births lib results is ?self1
       (h(?r := (h ?r)\<lparr>tracking_id := Some (id_count self + 1), age := Some 1,
            active := Some (if detection_score (h ?r) > det_th self then 1 else 0),
            KF := k\<rparr>))
       (ret0 @ [?r]) = Inr (ret2, self2, h2)"
    by (rule add_births_step)
  let ?d = "(h ?r)\<lparr>tracking_id := Some (id_count self + 1), age := Some 1,
            active := Some (if detection_score (h ?r) > det_th self then 1 else 0), KF := k\<rparr>"
  let ?h1 = "h(?r := ?d)"
  note ih = Cons.IH [OF rest]
  have 1: "ret2 = ret0 @ map (\<lambda>i. results ! i) (i # is)" using ih by simp
  have 2: "\<forall>j \<in> set (i # is). j < length results" using ih i by simp
  have 3: "self2 = self\<lparr>id_count := id_count self + int (length (i # is))\<rparr>" using ih by simp
  have 4: "\<forall>q. q \<notin> (\<lambda>i. results ! i) ` set (i # is) \<longrightarrow> h2 q = h q" using ih by auto
  have sc: "detection_score (?h1 q) = detection_score (h q)" for q by simp
  have 5: "\<forall>q. detection_score (h2 q) = detection_score (h q)" using ih sc by metis
  have 6: "\<forall>q \<in> (\<lambda>i. results ! i) ` set (i # is). age (h2 q) = Some 1"
  proof
    fix q assume "q \<in> (\<lambda>i. results ! i) ` set (i # is)"
    then consider "q \<in> (\<lambda>i. results ! i) ` set is" | "q = ?r" "q \<notin> (\<lambda>i. results ! i) ` set is"
      by auto
    then show "age (h2 q) = Some 1"
    proof cases
      case 1 with ih show ?thesis by blast
    next
      case 2
      with ih have "h2 q = ?h1 q" by blast
      with 2 show ?thesis by simp
    qed
  qed
  have 7: "distinct (map (\<lambda>i. results ! i) (i # is)) \<longrightarrow>
        (\<forall>k < length (i # is).
           tracking_id (h2 (results ! ((i # is) ! k))) = Some (id_count self + int k + 1) \<and>
           active (h2 (results ! ((i # is) ! k)))
             = Some (if detection_score (h (results ! ((i # is) ! k))) > det_th self then 1 else 0))"
  proof (intro impI allI)
    fix n assume d: "distinct (map (\<lambda>i. results ! i) (i # is))" and n: "n < length (i # is)"
    show "tracking_id (h2 (results ! ((i # is) ! n))) = Some (id_count self + int n + 1) \<and>
           active (h2 (results ! ((i # is) ! n)))
             = Some (if detection_score (h (results ! ((i # is) ! n))) > det_th self then 1 else 0)"
    proof (cases n)
      case 0
      from d have "?r \<notin> (\<lambda>i. results ! i) ` set is" by simp
      with ih have "h2 ?r = ?h1 ?r" by blast
      with 0 show ?thesis by simp
    next
      case (Suc j)
      from d have d': "distinct (map (\<lambda>i. results ! i) is)" by simp
      from Suc n have j: "j < length is" by simp
      from ih d' j have
        "tracking_id (h2 (results ! (is ! j))) = Some (id_count ?self1 + int j + 1) \<and>
         active (h2 (results ! (is ! j)))
           = Some (if detection_score (?h1 (results ! (is ! j))) > det_th ?self1 then 1 else 0)"
        by blast
      with Suc sc show ?thesis by simp
    qed
  qed
  from 1 2 3 4 5 6 7 show ?case by blast
qed


lemma age_tracks_step:
  assumes "age_tracks self (i # is) h ret = Inr res"
  obtains a h' ret' where
    "i < length (tracks self)"
    "age (h (tracks self ! i)) = Some a"
    "\<forall>q. q \<noteq> tracks self ! i \<longrightarrow> h' q = h q"
    "a < max_age self \<and> decayed self (h (tracks self ! i)) > del_th self \<and>
       ret' = ret @ [tracks self ! i] \<and> age (h' (tracks self ! i)) = Some (a + 1)
     \<or> (max_age self \<le> a \<or> decayed self (h (tracks self ! i)) \<le> del_th self) \<and>
       ret' = ret \<and> age (h' (tracks self ! i)) = Some a"
    "age_tracks self is h' ret' = Inr res"
proof -
  let ?t = "tracks self ! i"
  let ?track = "if score_update self \<noteq> None
                then (h ?t)\<lparr>detection_score := detection_score (h ?t) - noise self\<rparr> else h ?t"
  from assms have i: "i < length (tracks self)" and it: "item (tracks self) i = Inr ?t"
    by (auto simp: item_def split: if_splits)
  have sc: "detection_score ?track = decayed self (h ?t)" by (simp add: decayed_def)
  have ag: "age ?track = age (h ?t)" by simp
  from assms it obtain a where a: "age (h ?t) = Some a"
    by (auto simp: Let_def lookup_key_def split: sum.splits option.splits if_splits)
  show thesis
  proof (cases "a < max_age self \<and> decayed self (h ?t) > del_th self")
    case False
    with assms it a sc ag have rest: "age_tracks self is (h(?t := ?track)) ret = Inr res"
      by (cases "score_update self") (auto simp: Let_def lookup_key_def simp del: fun_upd_apply)
    have o: "\<forall>q. q \<noteq> ?t \<longrightarrow> (h(?t := ?track)) q = h q" by simp
    have "age ((h(?t := ?track)) ?t) = Some a" using a by simp
    with False have d: "a < max_age self \<and> decayed self (h ?t) > del_th self \<and>
       ret = ret @ [?t] \<and> age ((h(?t := ?track)) ?t) = Some (a + 1)
     \<or> (max_age self \<le> a \<or> decayed self (h ?t) \<le> del_th self) \<and>
       ret = ret \<and> age ((h(?t := ?track)) ?t) = Some a"
      by auto
    from that [OF i a o d rest] show thesis .
  next
    case True
    have "\<exists>track3. age track3 = Some (a + 1) \<and>
            age_tracks self is (h(?t := track3)) (ret @ [?t]) = Inr res"
      using assms it a True
      by (cases "score_update self")
         (auto simp: Let_def lookup_key_def decayed_def kept_def simp del: fun_upd_apply
               split: sum.splits if_splits option.splits dest!: move_forward_kept)
    then obtain track3 where a3: "age track3 = Some (a + 1)"
      and rest: "age_tracks self is (h(?t := track3)) (ret @ [?t]) = Inr res"
      by blast
    have o: "\<forall>q. q \<noteq> ?t \<longrightarrow> (h(?t := track3)) q = h q" by simp
    from True a3 have d: "a < max_age self \<and> decayed self (h ?t) > del_th self \<and>
       ret @ [?t] = ret @ [?t] \<and> age ((h(?t := track3)) ?t) = Some (a + 1)
     \<or> (max_age self \<le> a \<or> decayed self (h ?t) \<le> del_th self) \<and>
       ret @ [?t] = ret \<and> age ((h(?t := track3)) ?t) = Some a"
      by simp
    from that [OF i a o d rest] show thesis .
  qed
qed


lemma age_tracks_facts:
  "age_tracks self is h ret0 = Inr (ret3, h3) \<Longrightarrow>
     (\<exists>new. ret3 = ret0 @ new \<and> set new \<subseteq> (\<lambda>i. tracks self ! i) ` set is) \<and>
     (\<forall>i \<in> set is. i < length (tracks self)) \<and>
     (\<forall>q. q \<notin> (\<lambda>i. tracks self ! i) ` set is \<longrightarrow> h3 q = h q) \<and>
     ((\<forall>q \<in> set ret0. \<exists>a. age (h q) = Some a \<and> a \<le> max_age self) \<longrightarrow>
      (\<forall>q \<in> set ret3. \<exists>a. age (h3 q) = Some a \<and> a \<le> max_age self))"
proof (induction "is" arbitrary: h ret0)
  case Nil
  then show ?case by simp
next
  case (Cons i "is")
  let ?t = "tracks self ! i"
  from Cons.prems obtain a h' ret' where
    i: "i < length (tracks self)" and a: "age (h ?t) = Some a"
    and o: "\<forall>q. q \<noteq> ?t \<longrightarrow> h' q = h q"
    and d: "a < max_age self \<and> decayed self (h ?t) > del_th self \<and>
              ret' = ret0 @ [?t] \<and> age (h' ?t) = Some (a + 1)
            \<or> (max_age self \<le> a \<or> decayed self (h ?t) \<le> del_th self) \<and>
              ret' = ret0 \<and> age (h' ?t) = Some a"
    and rest: "age_tracks self is h' ret' = Inr (ret3, h3)"
    by (rule age_tracks_step)
  note ih = Cons.IH [OF rest]
  from ih obtain new where n: "ret3 = ret' @ new" "set new \<subseteq> (\<lambda>i. tracks self ! i) ` set is"
    by blast
  have 1: "\<exists>new'. ret3 = ret0 @ new' \<and> set new' \<subseteq> (\<lambda>i. tracks self ! i) ` set (i # is)"
  proof (cases "ret' = ret0")
    case True
    with n show ?thesis by (intro exI [of _ new]) auto
  next
    case False
    with d have "ret' = ret0 @ [?t]" by blast
    with n show ?thesis by (intro exI [of _ "?t # new"]) auto
  qed
  have 2: "\<forall>j \<in> set (i # is). j < length (tracks self)" using ih i by simp
  have 3: "\<forall>q. q \<notin> (\<lambda>i. tracks self ! i) ` set (i # is) \<longrightarrow> h3 q = h q"
    using ih o by auto
  have 4: "(\<forall>q \<in> set ret0. \<exists>a. age (h q) = Some a \<and> a \<le> max_age self) \<longrightarrow>
      (\<forall>q \<in> set ret3. \<exists>a. age (h3 q) = Some a \<and> a \<le> max_age self)"
  proof
    assume b: "\<forall>q \<in> set ret0. \<exists>a. age (h q) = Some a \<and> a \<le> max_age self"
    have "\<forall>q \<in> set ret'. \<exists>a. age (h' q) = Some a \<and> a \<le> max_age self"
    proof
      fix q assume q: "q \<in> set ret'"
      show "\<exists>a. age (h' q) = Some a \<and> a \<le> max_age self"
      proof (cases "q = ?t")
        case True
        from d show ?thesis
        proof
          assume "a < max_age self \<and> decayed self (h ?t) > del_th self \<and>
              ret' = ret0 @ [?t] \<and> age (h' ?t) = Some (a + 1)"
          with True show ?thesis by auto
        next
          assume c: "(max_age self \<le> a \<or> decayed self (h ?t) \<le> del_th self) \<and>
              ret' = ret0 \<and> age (h' ?t) = Some a"
          with q True b a show ?thesis by auto
        qed
      next
        case False
        with o have "h' q = h q" by simp
        moreover from d q False have "q \<in> set ret0" by auto
        ultimately show ?thesis using b by simp
      qed
    qed
    with ih show "\<forall>q \<in> set ret3. \<exists>a. age (h3 q) = Some a \<and> a \<le> max_age self" by blast
  qed
  from 1 2 3 4 show ?case by blast
qed



lemma distinct_map_nth:
  "distinct xs \<Longrightarrow> distinct is \<Longrightarrow> \<forall>i \<in> set is. i < length xs \<Longrightarrow>
     distinct (map (\<lambda>i. xs ! i) is)"
  by (auto simp: distinct_map inj_on_def nth_eq_iff_index_eq)

lemma update_tracks_parts:
  assumes "update_tracks lib self h results matches unmatched_trk unmatched_det
           = Inr (ret, self', h')"
  obtains ret1 h1 ret2 self2 h2 where
    "add_matches lib self results (rows_of matches) h [] = Inr (ret1, h1)"
    "add_births lib results unmatched_det self h1 ret1 = Inr (ret2, self2, h2)"
    "age_tracks self2 unmatched_trk h2 ret2 = Inr (ret, h')"
    "self' = self2\<lparr>tracks := ret\<rparr>"
  using assms by (auto simp: update_tracks_def split: sum.splits)




lemmas ev2 = ev update_tracks_def rows_of_def second_frame_heap_def stale_heap_def
  move_forward_def np_add_def decayed_def

lemma second_frame_example:
  "update_tracks lib0 after_first_frame second_frame_heap [2] (Array2 []) [0] [0]
     = Inr ([2, 0], after_first_frame\<lparr>id_count := 2, tracks := [2, 0]\<rparr>,
            second_frame_heap(2 := born (h0 2) 2,
                              0 := (born (h0 0) 1)\<lparr>age := Some 2, active := Some 0\<rparr>))"
  by (simp add: ev2 fun_upd_twist)



text \<open>
  C7. Whatever triple the assignment stage hands over, when the frame's dictionaries are
  distinct objects and none of them is a live track, the \<open>k\<close>-th unmatched detection
  is in the returned list with the fresh identity \<open>id_count + k + 1\<close>, age 1, and
  activity 1 if its score is above the detection threshold and 0 otherwise.
\<close>

theorem unmatched_detections_are_born:
  assumes u: "update_tracks lib self h results matches unmatched_trk unmatched_det
              = Inr (ret, self', h')"
    and dr: "distinct results" and dd: "distinct unmatched_det"
    and dj: "set results \<inter> set (tracks self) = {}"
    and k: "k < length unmatched_det"
  shows "results ! (unmatched_det ! k) \<in> set ret \<and>
         tracking_id (h' (results ! (unmatched_det ! k))) = Some (id_count self + int k + 1) \<and>
         id_count self < id_count self + int k + 1 \<and>
         id_count self + int k + 1 \<le> id_count self' \<and>
         age (h' (results ! (unmatched_det ! k))) = Some 1 \<and>
         active (h' (results ! (unmatched_det ! k)))
           = Some (if detection_score (h (results ! (unmatched_det ! k))) > det_th self
                   then 1 else 0)"
proof -
  let ?r = "results ! (unmatched_det ! k)"
  from u obtain ret1 h1 ret2 self2 h2 where
    m: "add_matches lib self results (rows_of matches) h [] = Inr (ret1, h1)"
    and b: "add_births lib results unmatched_det self h1 ret1 = Inr (ret2, self2, h2)"
    and a: "age_tracks self2 unmatched_trk h2 ret2 = Inr (ret, h')"
    and s': "self' = self2\<lparr>tracks := ret\<rparr>"
    by (rule update_tracks_parts)
  note fm = add_matches_facts [OF m]
  note fb = add_births_facts [OF b]
  note fa = age_tracks_facts [OF a]
  from fb have rng: "\<forall>i \<in> set unmatched_det. i < length results" by blast
  from distinct_map_nth [OF dr dd rng] fb k have
    id: "tracking_id (h2 ?r) = Some (id_count self + int k + 1)"
    and ac: "active (h2 ?r) = Some (if detection_score (h1 ?r) > det_th self then 1 else 0)"
    by blast+
  from k have kin: "unmatched_det ! k \<in> set unmatched_det" by simp
  with fb have ag: "age (h2 ?r) = Some 1" by blast
  from kin rng have rin: "?r \<in> set results" by simp
  from fb have s2: "self2 = self\<lparr>id_count := id_count self + int (length unmatched_det)\<rparr>" by blast
  have "?r \<notin> (\<lambda>i. tracks self2 ! i) ` set unmatched_trk"
  proof
    assume "?r \<in> (\<lambda>i. tracks self2 ! i) ` set unmatched_trk"
    then obtain i where "i \<in> set unmatched_trk" "?r = tracks self2 ! i" by blast
    with fa have "?r \<in> set (tracks self2)" by simp
    with s2 rin dj show False by auto
  qed
  with fa have e: "h' ?r = h2 ?r" by blast
  from fb kin have "?r \<in> set ret2" by simp
  with fa have 1: "?r \<in> set ret" by auto
  from fm have sc: "detection_score (h1 ?r) = detection_score (h ?r)" by blast
  from s' s2 k have 2: "id_count self + int k + 1 \<le> id_count self'" by simp
  from 1 2 e id ag ac sc show ?thesis by simp
qed


theorem unmatched_detections_are_born_witness:
  "update_tracks lib0 after_first_frame second_frame_heap [2] (Array2 []) [0] [0]
     = Inr ([2, 0], after_first_frame\<lparr>id_count := 2, tracks := [2, 0]\<rparr>,
            second_frame_heap(2 := born (h0 2) 2,
                              0 := (born (h0 0) 1)\<lparr>age := Some 2, active := Some 0\<rparr>)) \<and>
   distinct [2 :: nat] \<and> distinct [0 :: nat] \<and>
   set [2] \<inter> set (tracks after_first_frame) = {} \<and> (0 :: nat) < length [0 :: nat] \<and>
   tracking_id ((second_frame_heap(2 := born (h0 2) 2,
                     0 := (born (h0 0) 1)\<lparr>age := Some 2, active := Some 0\<rparr>)) 2) = Some 2 \<and>
   age ((second_frame_heap(2 := born (h0 2) 2,
                     0 := (born (h0 0) 1)\<lparr>age := Some 2, active := Some 0\<rparr>)) 2) = Some 1 \<and>
   active ((second_frame_heap(2 := born (h0 2) 2,
                     0 := (born (h0 0) 1)\<lparr>age := Some 2, active := Some 0\<rparr>)) 2) = Some 1"
proof -
  have d: "distinct [2 :: nat]" "distinct [0 :: nat]"
    "set [2] \<inter> set (tracks after_first_frame) = {}" "(0 :: nat) < length [0 :: nat]"
    by (simp_all add: after_first_frame_def)
  have sc: "detection_score (second_frame_heap 2) > det_th after_first_frame"
    "id_count after_first_frame = 1"
    by (simp_all add: ev2)
  from unmatched_detections_are_born [OF second_frame_example d] sc second_frame_example d
  show ?thesis by simp
qed





end
